theory Spec2Isabelle
  imports Main "HOL-Library.Sublist"
begin

section \<open>JavaScript values\<close>

text \<open>
  The pages exchange JSON with the backend and with \<^verbatim>\<open>localStorage\<close>, and they test the
  values they receive for truthiness only. A value is therefore modelled as the JSON tree it
  is, plus \<^verbatim>\<open>undefined\<close>. No arithmetic is done on numbers anywhere in the pages, so a number
  is carried as the text that \<^verbatim>\<open>String(n)\<close> gives for it. A string is a list of code units below
  256; an object is an association list read from the left.
\<close>

datatype jsval =
    JUndefined
  | JNull
  | JBool bool
  | JNum string
  | JStr string
  | JArr "jsval list"
  | JObj "(string \<times> jsval) list"

fun truthy :: "jsval \<Rightarrow> bool" where
  "truthy JUndefined = False"
| "truthy JNull = False"
| "truthy (JBool b) = b"
| "truthy (JNum s) = (s \<noteq> ''0'' \<and> s \<noteq> ''NaN'')"
| "truthy (JStr s) = (s \<noteq> [])"
| "truthy (JArr xs) = True"
| "truthy (JObj kvs) = True"

fun is_nullish :: "jsval \<Rightarrow> bool" where
  "is_nullish JUndefined = True"
| "is_nullish JNull = True"
| "is_nullish v = False"

text \<open>
  \<^verbatim>\<open>v.k\<close> for a value that is neither \<^verbatim>\<open>undefined\<close> nor \<^verbatim>\<open>null\<close> (reading a property of those
  throws a TypeError, so every caller tests \<open>is_nullish\<close> first). The pages read the properties
  \<^verbatim>\<open>analysis\<close>, \<^verbatim>\<open>title\<close>, \<^verbatim>\<open>url\<close>, \<^verbatim>\<open>message\<close> and \<^verbatim>\<open>error\<close>, none of which a primitive or an
  array has.
\<close>

fun member :: "jsval \<Rightarrow> string \<Rightarrow> jsval" where
  "member (JObj kvs) k = (case map_of kvs k of Some v \<Rightarrow> v | None \<Rightarrow> JUndefined)"
| "member v k = JUndefined"

text \<open>\<^verbatim>\<open>v?.k\<close>\<close>

definition opt_member :: "jsval \<Rightarrow> string \<Rightarrow> jsval" where
  "opt_member v k = (if is_nullish v then JUndefined else member v k)"

text \<open>\<^verbatim>\<open>a || b\<close>\<close>

definition js_or :: "jsval \<Rightarrow> jsval \<Rightarrow> jsval" where
  "js_or a b = (if truthy a then a else b)"

fun join_comma :: "string list \<Rightarrow> string" where
  "join_comma [] = []"
| "join_comma [x] = x"
| "join_comma (x # y # zs) = x @ '','' @ join_comma (y # zs)"

text \<open>
  \<^verbatim>\<open>String(v)\<close>, which a template literal and \<^verbatim>\<open>new Error(v)\<close> apply. An object is taken
  to have no \<^verbatim>\<open>toString\<close> or \<^verbatim>\<open>valueOf\<close> entry of its own.
\<close>

fun js_to_string :: "jsval \<Rightarrow> string" where
  "js_to_string JUndefined = ''undefined''"
| "js_to_string JNull = ''null''"
| "js_to_string (JBool b) = (if b then ''true'' else ''false'')"
| "js_to_string (JNum s) = s"
| "js_to_string (JStr s) = s"
| "js_to_string (JArr xs) =
     join_comma (map (\<lambda>x. if is_nullish x then [] else js_to_string x) xs)"
| "js_to_string (JObj kvs) = ''[object Object]''"

text \<open>
  What React accepts as a child of an element, as in \<^verbatim>\<open>{msg.content}\<close>: text and numbers are
  drawn, booleans, \<^verbatim>\<open>null\<close> and \<^verbatim>\<open>undefined\<close> draw nothing, an array is drawn element by
  element, and a plain object makes the render throw.
\<close>

fun renderable :: "jsval \<Rightarrow> bool" where
  "renderable (JObj kvs) = False"
| "renderable (JArr xs) = list_all renderable xs"
| "renderable v = True"

text \<open>
  \<^verbatim>\<open>String.prototype.trim\<close>: the white space among the code units below 256 is TAB, LF, VT,
  FF, CR, SPACE and NBSP.
\<close>

definition is_space :: "char \<Rightarrow> bool" where
  "is_space c = (c \<in> set [CHR 0x09, CHR 0x0A, CHR 0x0B, CHR 0x0C, CHR 0x0D, CHR 0x20, CHR 0xA0])"

definition trim :: "string \<Rightarrow> string" where
  "trim s = rev (dropWhile is_space (rev (dropWhile is_space s)))"

section \<open>What a fetch call can come to\<close>

text \<open>
  \<^verbatim>\<open>await fetch(...)\<close> either rejects (transport failure) or gives a response with its
  \<^verbatim>\<open>ok\<close> flag (status 2xx); \<^verbatim>\<open>await response.json()\<close> either rejects (the body is not JSON) or
  gives the parsed value. A rejection carries the \<^verbatim>\<open>message\<close> of its error.
\<close>

datatype body = Unparsable string | Parsed jsval

datatype fetch_outcome = Rejected string | Response bool body

section \<open>The chat page (src/unnamed/part_000)\<close>

record message =
  role :: string
  content :: jsval
  timestamp :: "string option"

text \<open>The object given to \<^verbatim>\<open>JSON.stringify\<close> as the body of a POST to the chat endpoint.\<close>

record chat_request =
  endpoint :: string
  req_messages :: "message list"
  req_url_data :: jsval

text \<open>
  The continuation that waits for a reply: the tail of \<^verbatim>\<open>handleAutoAnalyze\<close> or of
  \<^verbatim>\<open>handleSendMessage\<close>.
\<close>

datatype turn = AutoTurn | UserTurn

text \<open>
  The state hooks of the component (\<open>messages\<close>, \<open>input\<close>, \<open>isLoading\<close>), the route payload
  \<^verbatim>\<open>location.state?.urlData\<close>, and what the component has done to the outside: the paths it
  navigated to, the requests it sent, and the continuations still waiting for their reply.
  \<open>crashed\<close> is set when React could not render the page, because a state updater or the
  markup threw: no error boundary stands above the page, so React unmounts it, the update
  that failed is not committed, and the page handles no further event. A page that is
  shown has rendered its state, so after a step only what the step changed can throw.
\<close>

record chat_state =
  messages :: "message list"
  input :: string
  isLoading :: bool
  isExpanded :: bool
  urlData :: jsval
  navigated :: "string list"
  dispatched :: "chat_request list"
  outstanding :: "turn list"
  crashed :: bool

definition initial_state :: "jsval \<Rightarrow> chat_state" where
  "initial_state u =
     \<lparr>messages = [], input = [], isLoading = False, isExpanded = False, urlData = u,
      navigated = [], dispatched = [], outstanding = [], crashed = False\<rparr>"

definition summary_prompt :: string where
  "summary_prompt = ''Give me a summary of this website''"

text \<open>\<^verbatim>\<open>handleAutoAnalyze\<close> up to its \<^verbatim>\<open>await fetch\<close>.\<close>

definition handleAutoAnalyze :: "jsval \<Rightarrow> chat_state \<Rightarrow> chat_state" where
  "handleAutoAnalyze ud st =
     (if isLoading st then st
      else st\<lparr>isLoading := True,
              dispatched := dispatched st @
                [\<lparr>endpoint = ''http://127.0.0.1:3000/api/chat'',
                  req_messages =
                    [\<lparr>role = ''user'', content = JStr summary_prompt, timestamp = None\<rparr>],
                  req_url_data = ud\<rparr>],
              outstanding := outstanding st @ [AutoTurn]\<rparr>)"

text \<open>
  The \<^verbatim>\<open>try\<close> block of both handlers after the fetch. It throws into the handler's
  \<^verbatim>\<open>catch\<close> when the fetch rejected, the status is not 2xx or the body is not JSON
  (\<open>Caught\<close>). Otherwise it calls \<^verbatim>\<open>setMessages\<close> with an updater that reads
  \<^verbatim>\<open>data.message\<close>. React runs the updater, not the \<^verbatim>\<open>try\<close> block: when the parsed value is
  \<^verbatim>\<open>null\<close> the read throws there, out of reach of the \<^verbatim>\<open>catch\<close> (\<open>UpdaterFails\<close>). For any
  other value the updater gives a log with one more message, of content \<^verbatim>\<open>data.message\<close>,
  which the markup draws as \<^verbatim>\<open>{msg.content}\<close>: the message is appended when React can draw
  that content (\<open>Appends\<close>), and the render throws when it cannot (\<open>RenderFails\<close>).
\<close>

datatype reply = Caught | Appends jsval | UpdaterFails | RenderFails

fun chat_reply :: "fetch_outcome \<Rightarrow> reply" where
  "chat_reply (Rejected e) = Caught"
| "chat_reply (Response ok (Unparsable e)) = Caught"
| "chat_reply (Response ok (Parsed d)) =
     (if \<not> ok then Caught
      else if is_nullish d then UpdaterFails
      else if renderable (member d ''message'') then Appends (member d ''message'')
      else RenderFails)"

text \<open>\<^verbatim>\<open>handleAutoAnalyze\<close> from the reply on: \<^verbatim>\<open>try\<close>, \<^verbatim>\<open>catch\<close>, \<^verbatim>\<open>finally\<close>.\<close>

definition autoAnalyzeSettled :: "fetch_outcome \<Rightarrow> string \<Rightarrow> chat_state \<Rightarrow> chat_state" where
  "autoAnalyzeSettled r now st =
     (case chat_reply r of
        Appends m \<Rightarrow>
          st\<lparr>messages := messages st @ [\<lparr>role = ''model'', content = m, timestamp = Some now\<rparr>],
             isLoading := False\<rparr>
      | Caught \<Rightarrow>
          st\<lparr>messages := messages st @
               [\<lparr>role = ''system'',
                 content = JStr
                   ''Error: Failed to analyze website. Please try a different URL or try again later.'',
                 timestamp = Some now\<rparr>],
             isLoading := False\<rparr>
      | UpdaterFails \<Rightarrow> st\<lparr>isLoading := False, crashed := True\<rparr>
      | RenderFails \<Rightarrow> st\<lparr>isLoading := False, crashed := True\<rparr>)"

text \<open>The subject named by the welcome message.\<close>

definition welcome_subject :: "jsval \<Rightarrow> jsval" where
  "welcome_subject ud =
     js_or (js_or (opt_member (member ud ''analysis'') ''title'') (member ud ''url''))
       (JStr ''Unknown URL'')"

text \<open>The effect that runs when the page is mounted.\<close>

definition initEffect :: "string \<Rightarrow> chat_state \<Rightarrow> chat_state" where
  "initEffect now st =
     (if \<not> truthy (urlData st) then st\<lparr>navigated := navigated st @ [''/'']\<rparr>
      else handleAutoAnalyze (urlData st)
             (st\<lparr>messages :=
                   [\<lparr>role = ''system'',
                     content = JStr (''Analyzing website: '' @
                                     js_to_string (welcome_subject (urlData st))),
                     timestamp = Some now\<rparr>]\<rparr>))"

text \<open>\<^verbatim>\<open>handleSendMessage\<close> up to its \<^verbatim>\<open>await fetch\<close>.\<close>

definition handleSendMessage :: "string \<Rightarrow> chat_state \<Rightarrow> chat_state" where
  "handleSendMessage now st =
     (if trim (input st) = [] \<or> isLoading st then st
      else
        let userMessage = \<lparr>role = ''user'', content = JStr (input st), timestamp = Some now\<rparr>
        in st\<lparr>messages := messages st @ [userMessage],
              input := [],
              isLoading := True,
              dispatched := dispatched st @
                [\<lparr>endpoint = ''http://127.0.0.1:3000/api/chat'',
                  req_messages = messages st @ [userMessage],
                  req_url_data = urlData st\<rparr>],
              outstanding := outstanding st @ [UserTurn]\<rparr>)"

text \<open>\<^verbatim>\<open>handleSendMessage\<close> from the reply on.\<close>

definition sendSettled :: "fetch_outcome \<Rightarrow> string \<Rightarrow> chat_state \<Rightarrow> chat_state" where
  "sendSettled r now st =
     (case chat_reply r of
        Appends m \<Rightarrow>
          st\<lparr>messages := messages st @ [\<lparr>role = ''model'', content = m, timestamp = Some now\<rparr>],
             isLoading := False\<rparr>
      | Caught \<Rightarrow>
          st\<lparr>messages := messages st @
               [\<lparr>role = ''system'',
                 content = JStr ''Error: Failed to get a response. Please try again.'',
                 timestamp = Some now\<rparr>],
             isLoading := False\<rparr>
      | UpdaterFails \<Rightarrow> st\<lparr>isLoading := False, crashed := True\<rparr>
      | RenderFails \<Rightarrow> st\<lparr>isLoading := False, crashed := True\<rparr>)"

text \<open>
  The header of the page draws \<^verbatim>\<open>urlData?.analysis?.url?.slice(0, 30)\<close> on every render. Only
  a string and an array have \<^verbatim>\<open>slice\<close>: for any other value that is not \<^verbatim>\<open>null\<close> or
  \<^verbatim>\<open>undefined\<close> the call throws, and the slice of an array is drawn as a child.
\<close>

definition header_renders :: "jsval \<Rightarrow> bool" where
  "header_renders ud =
     (case opt_member (opt_member ud ''analysis'') ''url'' of
        JUndefined \<Rightarrow> True
      | JNull \<Rightarrow> True
      | JStr s \<Rightarrow> True
      | JArr xs \<Rightarrow> list_all renderable (take 30 xs)
      | _ \<Rightarrow> False)"

text \<open>\<^verbatim>\<open>urlData.analysis.key_points?.slice(0, 10).map(...)\<close>, each point drawn as a child.\<close>

definition key_points_render :: "jsval \<Rightarrow> bool" where
  "key_points_render kp =
     (case kp of
        JUndefined \<Rightarrow> True
      | JNull \<Rightarrow> True
      | JArr xs \<Rightarrow> list_all renderable (take 10 xs)
      | _ \<Rightarrow> False)"

text \<open>
  The sidebar, drawn when \<^verbatim>\<open>isExpanded && urlData?.analysis\<close> is truthy: the URL, the title
  and the topic of the analysis as children, and its key points.
\<close>

definition sidebar_renders :: "jsval \<Rightarrow> bool" where
  "sidebar_renders ud =
     (if \<not> truthy (opt_member ud ''analysis'') then True
      else renderable (member (opt_member ud ''analysis'') ''url'') \<and>
           renderable (js_or (member (opt_member ud ''analysis'') ''title'') (JStr ''N/A'')) \<and>
           renderable (js_or (member (opt_member ud ''analysis'') ''main_topic'') (JStr ''N/A'')) \<and>
           key_points_render (member (opt_member ud ''analysis'') ''key_points''))"

text \<open>\<^verbatim>\<open>toggleSidebar\<close>, and the render of the sidebar when it opens.\<close>

definition toggleSidebar :: "chat_state \<Rightarrow> chat_state" where
  "toggleSidebar st =
     (if \<not> isExpanded st \<and> \<not> sidebar_renders (urlData st) then st\<lparr>crashed := True\<rparr>
      else st\<lparr>isExpanded := \<not> isExpanded st\<rparr>)"

text \<open>
  What can happen to a mounted page: the user edits the input, the form is submitted, the
  reply to the \<open>i\<close>-th waiting request arrives, or the user opens or closes the sidebar.
  Submitting and settling carry the time that \<^verbatim>\<open>new Date().toISOString()\<close> reads.
\<close>

datatype chat_event = Change string | Submit string | Settle nat fetch_outcome string | Toggle

fun chat_step :: "chat_state \<Rightarrow> chat_event \<Rightarrow> chat_state" where
  "chat_step st (Change v) = (if crashed st then st else st\<lparr>input := v\<rparr>)"
| "chat_step st (Submit now) = (if crashed st then st else handleSendMessage now st)"
| "chat_step st Toggle = (if crashed st then st else toggleSidebar st)"
| "chat_step st (Settle i r now) =
     (if \<not> crashed st \<and> i < length (outstanding st)
      then
        let st' = st\<lparr>outstanding := take i (outstanding st) @ drop (Suc i) (outstanding st)\<rparr>
        in (case outstanding st ! i of
              AutoTurn \<Rightarrow> autoAnalyzeSettled r now st'
            | UserTurn \<Rightarrow> sendSettled r now st')
      else st)"

definition chat_run :: "chat_event list \<Rightarrow> chat_state \<Rightarrow> chat_state" where
  "chat_run evs st = foldl chat_step st evs"

text \<open>
  Mounting the page: the first render, with the state hooks at their initial values, and
  then the effect. When the first render throws the page is never shown and the effect
  never runs.
\<close>

definition mount :: "jsval \<Rightarrow> string \<Rightarrow> chat_state" where
  "mount u now =
     (if \<not> header_renders u then (initial_state u)\<lparr>crashed := True\<rparr>
      else initEffect now (initial_state u))"

section \<open>The chat page under Pages (src/frontend/src/Pages/ChatPage.jsx)\<close>

text \<open>
  The page under \<^verbatim>\<open>Pages/\<close> has the same state hooks, but for the sidebar, which it does
  not have. It makes no automatic summary turn, stamps no time on its messages, and posts
  the log alone, with no \<^verbatim>\<open>url_data\<close>. Its markup draws \<^verbatim>\<open>{msg.content}\<close> too.
\<close>

definition Pages_initEffect :: "chat_state \<Rightarrow> chat_state" where
  "Pages_initEffect st =
     (if \<not> truthy (urlData st) then st\<lparr>navigated := navigated st @ [''/'']\<rparr>
      else st\<lparr>messages :=
                [\<lparr>role = ''system'',
                  content = JStr (''Chat initialized with URL: '' @
                                  js_to_string (js_or (member (urlData st) ''url'')
                                                  (JStr ''Unknown URL''))),
                  timestamp = None\<rparr>]\<rparr>)"

definition Pages_handleSendMessage :: "chat_state \<Rightarrow> chat_state" where
  "Pages_handleSendMessage st =
     (if trim (input st) = [] \<or> isLoading st then st
      else
        let userMessage = \<lparr>role = ''user'', content = JStr (input st), timestamp = None\<rparr>
        in st\<lparr>messages := messages st @ [userMessage],
              input := [],
              isLoading := True,
              dispatched := dispatched st @
                [\<lparr>endpoint = ''/api/chat'',
                  req_messages = messages st @ [userMessage],
                  req_url_data = JUndefined\<rparr>],
              outstanding := outstanding st @ [UserTurn]\<rparr>)"

definition Pages_sendSettled :: "fetch_outcome \<Rightarrow> chat_state \<Rightarrow> chat_state" where
  "Pages_sendSettled r st =
     (case chat_reply r of
        Appends m \<Rightarrow>
          st\<lparr>messages := messages st @ [\<lparr>role = ''assistant'', content = m, timestamp = None\<rparr>],
             isLoading := False\<rparr>
      | Caught \<Rightarrow>
          st\<lparr>messages := messages st @
               [\<lparr>role = ''system'', content = JStr ''Error: Failed to get a response'',
                 timestamp = None\<rparr>],
             isLoading := False\<rparr>
      | UpdaterFails \<Rightarrow> st\<lparr>isLoading := False, crashed := True\<rparr>
      | RenderFails \<Rightarrow> st\<lparr>isLoading := False, crashed := True\<rparr>)"

fun Pages_step :: "chat_state \<Rightarrow> chat_event \<Rightarrow> chat_state" where
  "Pages_step st (Change v) = (if crashed st then st else st\<lparr>input := v\<rparr>)"
| "Pages_step st (Submit now) = (if crashed st then st else Pages_handleSendMessage st)"
| "Pages_step st Toggle = st"
| "Pages_step st (Settle i r now) =
     (if \<not> crashed st \<and> i < length (outstanding st)
      then Pages_sendSettled r
             (st\<lparr>outstanding := take i (outstanding st) @ drop (Suc i) (outstanding st)\<rparr>)
      else st)"

definition Pages_run :: "chat_event list \<Rightarrow> chat_state \<Rightarrow> chat_state" where
  "Pages_run evs st = foldl Pages_step st evs"

section \<open>The URL input page (src/unnamed/part_001)\<close>

text \<open>
  What the page takes from the browser: \<^verbatim>\<open>JSON.parse\<close> (\<open>None\<close> when it throws),
  \<^verbatim>\<open>JSON.stringify\<close>, and the messages of the two TypeErrors the engine can raise here
  (reading a property of \<^verbatim>\<open>null\<close>, calling something that is not a function).
  \<^verbatim>\<open>localStorage.setItem\<close> can throw, as it does when the quota is used up:
  \<open>setItem_error store key value\<close> is the message of the error it throws, \<open>None\<close> when the
  write goes through.
\<close>

record platform =
  JSON_parse :: "string \<Rightarrow> jsval option"
  JSON_stringify :: "jsval \<Rightarrow> string"
  null_read_message :: string
  not_function_message :: string
  setItem_error :: "(string \<rightharpoonup> string) \<Rightarrow> string \<Rightarrow> string \<Rightarrow> string option"

text \<open>
  What the continuation of \<^verbatim>\<open>handleSubmit\<close> holds in its closure while it waits for the
  reply: the normalised URL, and the \<^verbatim>\<open>recentUrls\<close> of the render that handled the submit
  (\<^verbatim>\<open>saveToRecent\<close> reads it from there).
\<close>

record pending_submit =
  p_url :: string
  p_recent :: jsval

record url_state =
  url :: string
  isLoading_input :: bool
  error :: string
  recentUrls :: jsval
  showRecent :: bool
  localStorage :: "string \<rightharpoonup> string"
  navigated_to :: "(string \<times> jsval) list"
  posted :: "string list"
  waiting :: "pending_submit list"

definition initial_url_state :: "(string \<rightharpoonup> string) \<Rightarrow> url_state" where
  "initial_url_state store =
     \<lparr>url = [], isLoading_input = False, error = [], recentUrls = JArr [], showRecent = False,
      localStorage = store, navigated_to = [], posted = [], waiting = []\<rparr>"

text \<open>
  \<^verbatim>\<open>v.slice(0, 5)\<close>: arrays and strings have the method; on anything else that
  \<^verbatim>\<open>JSON.parse\<close> can return the call throws a TypeError (\<open>None\<close>).
\<close>

fun js_slice_0_5 :: "jsval \<Rightarrow> jsval option" where
  "js_slice_0_5 (JArr xs) = Some (JArr (take 5 xs))"
| "js_slice_0_5 (JStr s) = Some (JStr (take 5 s))"
| "js_slice_0_5 v = None"

text \<open>\<^verbatim>\<open>v.length\<close> of an array or a string.\<close>

fun js_length :: "jsval \<Rightarrow> nat" where
  "js_length (JArr xs) = length xs"
| "js_length (JStr s) = length s"
| "js_length v = 0"

text \<open>The effect that loads the recent URLs when the page is mounted.\<close>

definition loadRecentEffect :: "platform \<Rightarrow> url_state \<Rightarrow> url_state" where
  "loadRecentEffect pf st =
     (case localStorage st ''recentUrls'' of
        None \<Rightarrow> st
      | Some savedUrls \<Rightarrow>
          if savedUrls = [] then st
          else (case JSON_parse pf savedUrls of
                  None \<Rightarrow> st
                | Some v \<Rightarrow>
                    (case js_slice_0_5 v of
                       None \<Rightarrow> st
                     | Some r \<Rightarrow> st\<lparr>recentUrls := r\<rparr>)))"

definition updatedUrls :: "string \<Rightarrow> jsval list \<Rightarrow> jsval list" where
  "updatedUrls urlToSave xs = take 5 (JStr urlToSave # filter (\<lambda>item. item \<noteq> JStr urlToSave) xs)"

text \<open>
  \<^verbatim>\<open>saveToRecent\<close>, reading \<^verbatim>\<open>recentUrls\<close> from its closure: \<open>Saved\<close> the state it leaves
  when it returns, \<open>Threw\<close> the message of the error it throws and the state it leaves
  then. Only an array has \<^verbatim>\<open>filter\<close>: on anything else the call throws a TypeError before
  any state is set. \<^verbatim>\<open>setRecentUrls\<close> comes before \<^verbatim>\<open>localStorage.setItem\<close>, so a write that
  throws leaves the new list in the state.
\<close>

datatype saved = Saved url_state | Threw string url_state

fun left_state :: "saved \<Rightarrow> url_state" where
  "left_state (Saved st) = st"
| "left_state (Threw e st) = st"

definition saveToRecent :: "platform \<Rightarrow> jsval \<Rightarrow> string \<Rightarrow> url_state \<Rightarrow> saved" where
  "saveToRecent pf recent urlToSave st =
     (case recent of
        JArr xs \<Rightarrow>
          (case setItem_error pf (localStorage st) ''recentUrls''
                  (JSON_stringify pf (JArr (updatedUrls urlToSave xs))) of
             None \<Rightarrow>
               Saved (st\<lparr>recentUrls := JArr (updatedUrls urlToSave xs),
                         localStorage := (localStorage st)
                           (''recentUrls'' \<mapsto>
                              JSON_stringify pf (JArr (updatedUrls urlToSave xs)))\<rparr>)
           | Some e \<Rightarrow> Threw e (st\<lparr>recentUrls := JArr (updatedUrls urlToSave xs)\<rparr>))
      | _ \<Rightarrow> Threw (not_function_message pf) st)"

text \<open>The test \<^verbatim>\<open>/^https?:\/\//i\<close>.\<close>

definition has_http_scheme :: "string \<Rightarrow> bool" where
  "has_http_scheme s =
     (case s of
        h # t1 # t2 # p # r \<Rightarrow>
          h \<in> set ''hH'' \<and> t1 \<in> set ''tT'' \<and> t2 \<in> set ''tT'' \<and> p \<in> set ''pP'' \<and>
          (take 3 r = ''://'' \<or>
           (case r of c # r' \<Rightarrow> c \<in> set ''sS'' \<and> take 3 r' = ''://'' | [] \<Rightarrow> False))
      | _ \<Rightarrow> False)"

text \<open>
  The same test in words, to compare with the expression: the string begins with
  \<^verbatim>\<open>http://\<close> or \<^verbatim>\<open>https://\<close>, its letters in either case.
\<close>

definition ascii_lower :: "char \<Rightarrow> char" where
  "ascii_lower c =
     (case map_of (zip ''ABCDEFGHIJKLMNOPQRSTUVWXYZ'' ''abcdefghijklmnopqrstuvwxyz'') c of
        Some l \<Rightarrow> l
      | None \<Rightarrow> c)"

definition begins_with_http :: "string \<Rightarrow> bool" where
  "begins_with_http s =
     (map ascii_lower (take 7 s) = ''http://'' \<or> map ascii_lower (take 8 s) = ''https://'')"

definition normalize_url :: "string \<Rightarrow> string" where
  "normalize_url urlToProcess =
     (if \<not> has_http_scheme urlToProcess then ''https://'' @ urlToProcess else urlToProcess)"

text \<open>\<^verbatim>\<open>handleSubmit\<close> up to its \<^verbatim>\<open>await fetch\<close>.\<close>

definition handleSubmit :: "url_state \<Rightarrow> url_state" where
  "handleSubmit st =
     (if trim (url st) = [] then st\<lparr>error := ''Please enter a URL''\<rparr>
      else st\<lparr>isLoading_input := True,
              error := [],
              posted := posted st @ [normalize_url (trim (url st))],
              waiting := waiting st @
                [\<lparr>p_url = normalize_url (trim (url st)), p_recent = recentUrls st\<rparr>]\<rparr>)"

text \<open>
  The \<^verbatim>\<open>try\<close> block of \<^verbatim>\<open>handleSubmit\<close> after the fetch: \<open>Inl\<close> the message of the error it
  throws and the state it leaves then, \<open>Inr\<close> the state it leaves when it runs to its end.
\<close>

fun submit_try ::
  "platform \<Rightarrow> pending_submit \<Rightarrow> fetch_outcome \<Rightarrow> url_state \<Rightarrow> (string \<times> url_state) + url_state"
where
  "submit_try pf p (Rejected e) st = Inl (e, st)"
| "submit_try pf p (Response ok (Unparsable e)) st = Inl (e, st)"
| "submit_try pf p (Response ok (Parsed d)) st =
     (if \<not> ok
      then (if is_nullish d then Inl (null_read_message pf, st)
            else Inl (js_to_string (js_or (member d ''error'') (JStr ''Failed to process URL'')),
                      st))
      else (case saveToRecent pf (p_recent p) (p_url p) st of
              Threw e st' \<Rightarrow> Inl (e, st')
            | Saved st' \<Rightarrow> Inr (st'\<lparr>navigated_to := navigated_to st' @ [(''/chat'', d)]\<rparr>)))"

text \<open>\<^verbatim>\<open>handleSubmit\<close> from the reply on: \<^verbatim>\<open>try\<close>, \<^verbatim>\<open>catch\<close>, \<^verbatim>\<open>finally\<close>.\<close>

definition submitSettled :: "platform \<Rightarrow> pending_submit \<Rightarrow> fetch_outcome \<Rightarrow> url_state \<Rightarrow> url_state"
where
  "submitSettled pf p r st =
     (case submit_try pf p r st of
        Inr st' \<Rightarrow> st'\<lparr>isLoading_input := False\<rparr>
      | Inl (msg, st') \<Rightarrow>
          st'\<lparr>error := (if msg = [] then ''An error occurred processing this URL. Please try again.''
                         else msg),
              isLoading_input := False\<rparr>)"

text \<open>
  The markup of the form: the input field and the submit button both carry
  \<^verbatim>\<open>disabled={isLoading}\<close>. \<^verbatim>\<open>handleSubmit\<close> itself does not read the flag.
\<close>

definition url_input_disabled :: "url_state \<Rightarrow> bool" where
  "url_input_disabled st = isLoading_input st"

definition submit_button_disabled :: "url_state \<Rightarrow> bool" where
  "submit_button_disabled st = isLoading_input st"

definition selectRecentUrl :: "string \<Rightarrow> url_state \<Rightarrow> url_state" where
  "selectRecentUrl selectedUrl st = st\<lparr>url := selectedUrl, showRecent := False\<rparr>"

definition clearRecentUrls :: "url_state \<Rightarrow> url_state" where
  "clearRecentUrls st =
     st\<lparr>recentUrls := JArr [], localStorage := (localStorage st)(''recentUrls'' := None),
        showRecent := False\<rparr>"

section \<open>Predicates on chat states and events\<close>

text \<open>The loading flag is up exactly when one request waits for its reply, and never more.\<close>

definition single_flight :: "chat_state \<Rightarrow> bool" where
  "single_flight s = (length (outstanding s) = (if isLoading s then 1 else 0))"

fun is_submit :: "chat_event \<Rightarrow> bool" where
  "is_submit (Submit now) = True"
| "is_submit ev = False"

definition known_role :: "message \<Rightarrow> bool" where
  "known_role m = (role m = ''user'' \<or> role m = ''model'' \<or> role m = ''system'')"

definition not_from_user :: "message \<Rightarrow> bool" where
  "not_from_user m = (role m \<noteq> ''user'')"

text \<open>Log entries and requests still waiting.\<close>

definition accounted :: "chat_state \<Rightarrow> nat" where
  "accounted s = length (messages s) + length (outstanding s)"

section \<open>The chat page: lemmas\<close>

subsection \<open>Replies\<close>

lemma chat_reply_message:
  "chat_reply (Response True (Parsed (JObj [(''message'', JStr t)]))) = Appends (JStr t)"
  by simp

lemma chat_reply_ok:
  "\<not> is_nullish d \<Longrightarrow> renderable (member d ''message'') \<Longrightarrow>
   chat_reply (Response True (Parsed d)) = Appends (member d ''message'')"
  by simp

lemma chat_reply_not_ok: "chat_reply (Response False b) = Caught"
  by (cases b) simp_all

lemma null_body_escapes_catch:
  "sendSettled (Response True (Parsed JNull)) now st = st\<lparr>isLoading := False, crashed := True\<rparr>"
  "autoAnalyzeSettled (Response True (Parsed JNull)) now st =
     st\<lparr>isLoading := False, crashed := True\<rparr>"
  by (simp_all add: sendSettled_def autoAnalyzeSettled_def)

lemma object_message_fails_render:
  "sendSettled (Response True (Parsed (JObj [(''message'', JObj kvs)]))) now st =
     st\<lparr>isLoading := False, crashed := True\<rparr>"
  "autoAnalyzeSettled (Response True (Parsed (JObj [(''message'', JObj kvs)]))) now st =
     st\<lparr>isLoading := False, crashed := True\<rparr>"
  by (simp_all add: sendSettled_def autoAnalyzeSettled_def)

lemma welcome_subject_without_title:
  "js_to_string (welcome_subject (JObj [(''analysis'', JObj [(''url'', JStr ''https://example.com'')])])) =
     ''Unknown URL''"
  by (simp add: welcome_subject_def js_or_def opt_member_def)

lemma header_renders_string_url:
  "opt_member (opt_member u ''analysis'') ''url'' = JStr w \<Longrightarrow> header_renders u"
  "is_nullish (opt_member (opt_member u ''analysis'') ''url'') \<Longrightarrow> header_renders u"
  by (cases "opt_member (opt_member u ''analysis'') ''url''"; simp add: header_renders_def)+

lemma header_renders_falsy: "\<not> truthy u \<Longrightarrow> header_renders u"
  by (cases u) (simp_all add: header_renders_def opt_member_def)

lemma number_url_fails_first_render:
  "mount (JObj [(''analysis'', JObj [(''url'', JNum ''7'')])]) now =
     (initial_state (JObj [(''analysis'', JObj [(''url'', JNum ''7'')])]))\<lparr>crashed := True\<rparr>"
  by (simp add: mount_def header_renders_def opt_member_def)

subsection \<open>A crashed page stays as it is\<close>

lemma crashed_step: "crashed s \<Longrightarrow> chat_step s ev = s"
  by (cases ev) simp_all

lemma crashed_run: "crashed s \<Longrightarrow> chat_run evs s = s"
  unfolding chat_run_def
  by (induction evs) (simp_all add: crashed_step)

subsection \<open>The log only grows\<close>

lemma handleSendMessage_grows: "prefix (messages st) (messages (handleSendMessage now st))"
  by (simp add: handleSendMessage_def Let_def)

lemma sendSettled_grows: "prefix (messages st) (messages (sendSettled r now st))"
  by (simp add: sendSettled_def split: reply.split)

lemma autoAnalyzeSettled_grows: "prefix (messages st) (messages (autoAnalyzeSettled r now st))"
  by (simp add: autoAnalyzeSettled_def split: reply.split)

lemma chat_step_grows: "prefix (messages st) (messages (chat_step st ev))"
proof (cases ev)
  case (Change v)
  then show ?thesis by simp
next
  case (Submit now)
  then show ?thesis by (simp add: handleSendMessage_grows)
next
  case (Settle i r now)
  let ?st' = "st\<lparr>outstanding := take i (outstanding st) @ drop (Suc i) (outstanding st)\<rparr>"
  show ?thesis
    using Settle sendSettled_grows [of ?st' r now] autoAnalyzeSettled_grows [of ?st' r now]
    by (simp add: Let_def split: turn.split)
next
  case Toggle
  then show ?thesis by (simp add: toggleSidebar_def)
qed

lemma chat_run_grows: "prefix (messages st) (messages (chat_run evs st))"
  unfolding chat_run_def
proof (induction evs arbitrary: st)
  case Nil
  then show ?case by simp
next
  case (Cons ev evs)
  have "prefix (messages st) (messages (chat_step st ev))"
    by (rule chat_step_grows)
  also have "prefix (messages (chat_step st ev))
               (messages (foldl chat_step (chat_step st ev) evs))"
    by (rule Cons.IH)
  finally show ?case by simp
qed

subsection \<open>One request at a time\<close>

lemma single_flight_mount: "single_flight (mount u now)"
  by (simp add: single_flight_def mount_def initEffect_def handleAutoAnalyze_def initial_state_def)

lemma single_flight_step:
  assumes "single_flight s"
  shows "single_flight (chat_step s ev)"
proof (cases ev)
  case (Change v)
  with assms show ?thesis by (auto simp: single_flight_def split: if_splits)
next
  case (Submit now)
  with assms show ?thesis
    by (auto simp: single_flight_def handleSendMessage_def Let_def split: if_splits)
next
  case (Settle i r now)
  with assms show ?thesis
    by (auto simp: single_flight_def Let_def sendSettled_def autoAnalyzeSettled_def
             split: turn.split reply.split if_splits)
next
  case Toggle
  with assms show ?thesis
    by (auto simp: single_flight_def toggleSidebar_def split: if_splits)
qed

lemma single_flight_run: "single_flight s \<Longrightarrow> single_flight (chat_run evs s)"
  unfolding chat_run_def
  by (induction evs arbitrary: s) (simp_all add: single_flight_step)

lemma handleSendMessage_busy: "isLoading s \<Longrightarrow> handleSendMessage now s = s"
  by (simp add: handleSendMessage_def)

lemma submits_while_busy: "isLoading s \<Longrightarrow> chat_run (map Submit nows) s = s"
  unfolding chat_run_def
  by (induction nows) (simp_all add: handleSendMessage_busy)

subsection \<open>Roles\<close>

lemma known_role_mount: "list_all known_role (messages (mount u now))"
  by (simp add: known_role_def mount_def initEffect_def handleAutoAnalyze_def initial_state_def)

lemma known_role_step:
  assumes "list_all known_role (messages s)"
  shows "list_all known_role (messages (chat_step s ev))"
proof (cases ev)
  case (Change v)
  with assms show ?thesis by simp
next
  case (Submit now)
  with assms show ?thesis
    by (simp add: handleSendMessage_def Let_def known_role_def)
next
  case (Settle i r now)
  with assms show ?thesis
    by (simp add: Let_def sendSettled_def autoAnalyzeSettled_def known_role_def
             split: turn.split reply.split)
next
  case Toggle
  with assms show ?thesis by (simp add: toggleSidebar_def)
qed

lemma known_role_run:
  "list_all known_role (messages s) \<Longrightarrow> list_all known_role (messages (chat_run evs s))"
  unfolding chat_run_def
  by (induction evs arbitrary: s) (simp_all add: known_role_step)

subsection \<open>Before the first submit\<close>

lemma mount_present:
  assumes "truthy u" and "header_renders u"
  shows "mount u t0 =
    \<lparr>messages = [\<lparr>role = ''system'',
                   content = JStr (''Analyzing website: '' @ js_to_string (welcome_subject u)),
                   timestamp = Some t0\<rparr>],
     input = [], isLoading = True, isExpanded = False, urlData = u, navigated = [],
     dispatched = [\<lparr>endpoint = ''http://127.0.0.1:3000/api/chat'',
                    req_messages =
                      [\<lparr>role = ''user'', content = JStr summary_prompt, timestamp = None\<rparr>],
                    req_url_data = u\<rparr>],
     outstanding = [AutoTurn], crashed = False\<rparr>"
  using assms by (simp add: mount_def initEffect_def initial_state_def handleAutoAnalyze_def)

lemma welcome_subject_title:
  "opt_member (member u ''analysis'') ''title'' = JStr t \<Longrightarrow> t \<noteq> [] \<Longrightarrow>
   js_to_string (welcome_subject u) = t"
  by (simp add: welcome_subject_def js_or_def)

lemma quiet_step_count:
  assumes "\<not> is_submit ev" and "single_flight s" and "\<not> crashed (chat_step s ev)"
  shows "accounted (chat_step s ev) = accounted s"
proof -
  from assms(2) have "length (outstanding s) \<le> 1"
    by (simp add: single_flight_def split: if_splits)
  with assms(1,3) show ?thesis
    by (cases ev)
       (auto simp: accounted_def Let_def autoAnalyzeSettled_def sendSettled_def toggleSidebar_def
             split: turn.splits reply.splits if_splits)
qed

lemma quiet_run_count:
  assumes "list_all (\<lambda>ev. \<not> is_submit ev) evs" and "single_flight s"
    and "\<not> crashed (chat_run evs s)"
  shows "accounted (chat_run evs s) = accounted s"
  using assms
proof (induction evs arbitrary: s)
  case Nil
  then show ?case by (simp add: chat_run_def)
next
  case (Cons ev evs)
  from Cons.prems have q: "\<not> is_submit ev" and qs: "list_all (\<lambda>ev. \<not> is_submit ev) evs"
    by simp_all
  have run: "chat_run (ev # evs) s = chat_run evs (chat_step s ev)"
    by (simp add: chat_run_def)
  have alive: "\<not> crashed (chat_step s ev)"
  proof
    assume "crashed (chat_step s ev)"
    then have "crashed (chat_run evs (chat_step s ev))"
      by (simp add: crashed_run)
    with Cons.prems(3) run show False by simp
  qed
  have "single_flight (chat_step s ev)"
    by (rule single_flight_step [OF Cons.prems(2)])
  moreover from Cons.prems(3) run have "\<not> crashed (chat_run evs (chat_step s ev))"
    by simp
  ultimately have "accounted (chat_run evs (chat_step s ev)) = accounted (chat_step s ev)"
    by (rule Cons.IH [OF qs])
  with quiet_step_count [OF q Cons.prems(2) alive] run show ?case by simp
qed

lemma quiet_step_roles:
  assumes "\<not> is_submit ev" and "list_all not_from_user (messages s)"
  shows "list_all not_from_user (messages (chat_step s ev))"
  using assms
  by (cases ev)
     (simp_all add: Let_def autoAnalyzeSettled_def sendSettled_def not_from_user_def
               toggleSidebar_def split: turn.split reply.split)

lemma quiet_run_roles:
  assumes "list_all (\<lambda>ev. \<not> is_submit ev) evs" and "list_all not_from_user (messages s)"
  shows "list_all not_from_user (messages (chat_run evs s))"
  using assms unfolding chat_run_def
  by (induction evs arbitrary: s) (simp_all add: quiet_step_roles)

subsection \<open>The form of the URL input page\<close>

lemma handleSubmit_posts:
  assumes "trim (url st) \<noteq> []"
  shows "posted (handleSubmit st) = posted st @ [normalize_url (trim (url st))]"
    and "length (waiting (handleSubmit st)) = length (waiting st) + 1"
    and "isLoading_input (handleSubmit st)"
  using assms by (simp_all add: handleSubmit_def)

section \<open>The chat page: claims\<close>

text \<open>
  Claim C8. After initialisation the message log is append-only: whatever the user and the
  backend do to a mounted page (editing the input, submitting, replies to a user turn or to
  the automatic summary turn, successful or failed), the log before is a prefix of the log
  after; starting the automatic turn does not touch the log; and a reply that ends in the
  handler's \<^verbatim>\<open>catch\<close> appends one system message to the log it finds.
\<close>

theorem log_append_only:
  "prefix (messages st) (messages (chat_run evs st)) \<and>
   messages (handleAutoAnalyze ud st) = messages st \<and>
   (chat_reply r = Caught \<longrightarrow>
      messages (sendSettled r now st) =
        messages st @
          [\<lparr>role = ''system'',
            content = JStr ''Error: Failed to get a response. Please try again.'',
            timestamp = Some now\<rparr>] \<and>
      messages (autoAnalyzeSettled r now st) =
        messages st @
          [\<lparr>role = ''system'',
            content = JStr
              ''Error: Failed to analyze website. Please try a different URL or try again later.'',
            timestamp = Some now\<rparr>])"
  by (simp add: chat_run_grows handleAutoAnalyze_def sendSettled_def autoAnalyzeSettled_def)

theorem log_append_only_witness:
  "chat_reply (Rejected ''Failed to fetch'') = Caught \<and>
   messages (sendSettled (Rejected ''Failed to fetch'') ''t1'' (initial_state JNull)) =
     [\<lparr>role = ''system'',
       content = JStr ''Error: Failed to get a response. Please try again.'',
       timestamp = Some ''t1''\<rparr>]"
  using log_append_only [of "initial_state JNull" "[]" JNull "Rejected ''Failed to fetch''" "''t1''"]
  by (simp add: initial_state_def)

text \<open>
  Claim C2, as the code has it. On the chat page, while the loading flag is up, no submit is
  accepted: any sequence of submits leaves the whole state as it was (the log, the requests
  sent, the requests waiting); at most one request waits for its reply at any time, and the
  flag is up exactly while one does. On the URL input page the flag only disables the input
  field and the submit button: \<^verbatim>\<open>handleSubmit\<close> does not read it, and a submit that reaches
  it with a non-blank input posts a request, whether or not one is waiting.
\<close>

theorem busy_rejects_submits:
  "(isLoading s \<longrightarrow> chat_run (map Submit nows) s = s) \<and>
   length (outstanding (chat_run evs (mount u now))) \<le> 1 \<and>
   (isLoading (chat_run evs (mount u now)) \<longleftrightarrow> outstanding (chat_run evs (mount u now)) \<noteq> []) \<and>
   url_input_disabled st = isLoading_input st \<and>
   submit_button_disabled st = isLoading_input st \<and>
   (trim (url st) \<noteq> [] \<longrightarrow>
      posted (handleSubmit st) = posted st @ [normalize_url (trim (url st))] \<and>
      length (waiting (handleSubmit st)) = length (waiting st) + 1 \<and>
      isLoading_input (handleSubmit st))"
proof -
  have "single_flight (chat_run evs (mount u now))"
    by (rule single_flight_run [OF single_flight_mount])
  then have "length (outstanding (chat_run evs (mount u now))) \<le> 1"
    and "isLoading (chat_run evs (mount u now)) \<longleftrightarrow>
         outstanding (chat_run evs (mount u now)) \<noteq> []"
    by (auto simp: single_flight_def split: if_splits)
  then show ?thesis
    by (simp add: submits_while_busy handleSubmit_posts url_input_disabled_def
          submit_button_disabled_def)
qed

theorem busy_rejects_submits_witness:
  "isLoading (mount (JObj []) ''t0'') \<and>
   chat_run (map Submit [''t1'', ''t2'']) (mount (JObj []) ''t0'') = mount (JObj []) ''t0'' \<and>
   length (outstanding (chat_run [Change ''hello'', Submit ''t1''] (mount (JObj []) ''t0''))) \<le> 1 \<and>
   trim (url ((initial_url_state Map.empty)\<lparr>url := ''example.com'', isLoading_input := True\<rparr>)) \<noteq> [] \<and>
   submit_button_disabled
     ((initial_url_state Map.empty)\<lparr>url := ''example.com'', isLoading_input := True\<rparr>) \<and>
   posted (handleSubmit
     ((initial_url_state Map.empty)\<lparr>url := ''example.com'', isLoading_input := True\<rparr>)) =
     [''https://example.com'']"
proof -
  let ?st = "(initial_url_state Map.empty)\<lparr>url := ''example.com'', isLoading_input := True\<rparr>"
  have busy: "isLoading (mount (JObj []) ''t0'')"
    by (simp add: mount_present header_renders_def opt_member_def)
  have typed: "trim (url ?st) \<noteq> []"
    by (simp add: initial_url_state_def trim_def is_space_def)
  have flag: "isLoading_input ?st"
    by (simp add: initial_url_state_def)
  have normal: "normalize_url (trim (url ?st)) = ''https://example.com''"
    by (simp add: initial_url_state_def trim_def is_space_def normalize_url_def
          has_http_scheme_def)
  from busy typed flag normal
    busy_rejects_submits [of "mount (JObj []) ''t0''" "[''t1'', ''t2'']"
      "[Change ''hello'', Submit ''t1'']" "JObj []" "''t0''" ?st]
  show ?thesis by (simp add: initial_url_state_def)
qed

text \<open>
  Claim C2 as stated fails on the URL input page: a second submit that reaches
  \<^verbatim>\<open>handleSubmit\<close> while the first request waits is posted as well, so two requests are
  outstanding.
\<close>

theorem busy_rejects_submits_counterexample:
  "isLoading_input (handleSubmit ((initial_url_state Map.empty)\<lparr>url := ''example.com''\<rparr>)) \<and>
   posted (handleSubmit (handleSubmit ((initial_url_state Map.empty)\<lparr>url := ''example.com''\<rparr>))) =
     [''https://example.com'', ''https://example.com''] \<and>
   length (waiting
     (handleSubmit (handleSubmit ((initial_url_state Map.empty)\<lparr>url := ''example.com''\<rparr>)))) = 2"
  by (simp add: handleSubmit_def initial_url_state_def trim_def is_space_def normalize_url_def
        has_http_scheme_def)

text \<open>
  Claim C9. When the page is mounted without a route payload (\<^verbatim>\<open>urlData\<close> is undefined, null
  or otherwise falsy), the effect only redirects to the URL input page at \<^verbatim>\<open>/\<close>: the log
  stays empty, no request is sent and none waits, and the loading flag stays down.
\<close>

theorem missing_analysis_redirects:
  assumes "\<not> truthy u"
  shows "messages (mount u now) = [] \<and> dispatched (mount u now) = [] \<and>
         outstanding (mount u now) = [] \<and> \<not> isLoading (mount u now) \<and>
         navigated (mount u now) = [''/'']"
  using assms header_renders_falsy [OF assms]
  by (simp add: mount_def initEffect_def initial_state_def)

theorem missing_analysis_redirects_witness:
  "\<not> truthy JUndefined \<and> messages (mount JUndefined ''t0'') = [] \<and>
   dispatched (mount JUndefined ''t0'') = [] \<and> navigated (mount JUndefined ''t0'') = [''/'']"
proof -
  have absent: "\<not> truthy JUndefined" by simp
  from missing_analysis_redirects [OF absent, of "''t0''"] absent show ?thesis by simp
qed

text \<open>
  Claim C1, as the code has it. An accepted turn (non-blank input, loading flag down) makes
  the log grow by exactly two entries: the user message with the input as typed, then one
  entry for the reply. When the backend answers 2xx with a JSON body \<open>d\<close> other than null
  whose \<^verbatim>\<open>message\<close> React can draw (a string, as in \<^verbatim>\<open>{"message": "hi"}\<close>; not an object, nor
  an array that holds one), that entry carries \<^verbatim>\<open>d.message\<close> under the role \<^verbatim>\<open>model\<close> on the
  page of part_000 and \<^verbatim>\<open>assistant\<close> on the page under \<^verbatim>\<open>Pages/\<close>; when the fetch fails, the
  status is not 2xx or the body is not JSON, it is one system error message. The loading
  flag is down afterwards.
\<close>

theorem send_turn_two_entries:
  assumes "trim (input st) \<noteq> []" and "\<not> isLoading st" and "outstanding st = []"
    and "\<not> crashed st"
  shows
    "(chat_reply r = Appends m \<longrightarrow>
        messages (chat_run [Submit t1, Settle 0 r t2] st) =
          messages st @
            [\<lparr>role = ''user'', content = JStr (input st), timestamp = Some t1\<rparr>,
             \<lparr>role = ''model'', content = m, timestamp = Some t2\<rparr>] \<and>
        \<not> crashed (chat_run [Submit t1, Settle 0 r t2] st) \<and>
        messages (Pages_run [Submit t1, Settle 0 r t2] st) =
          messages st @
            [\<lparr>role = ''user'', content = JStr (input st), timestamp = None\<rparr>,
             \<lparr>role = ''assistant'', content = m, timestamp = None\<rparr>] \<and>
        \<not> crashed (Pages_run [Submit t1, Settle 0 r t2] st)) \<and>
     (chat_reply r = Caught \<longrightarrow>
        messages (chat_run [Submit t1, Settle 0 r t2] st) =
          messages st @
            [\<lparr>role = ''user'', content = JStr (input st), timestamp = Some t1\<rparr>,
             \<lparr>role = ''system'',
              content = JStr ''Error: Failed to get a response. Please try again.'',
              timestamp = Some t2\<rparr>] \<and>
        \<not> crashed (chat_run [Submit t1, Settle 0 r t2] st) \<and>
        messages (Pages_run [Submit t1, Settle 0 r t2] st) =
          messages st @
            [\<lparr>role = ''user'', content = JStr (input st), timestamp = None\<rparr>,
             \<lparr>role = ''system'', content = JStr ''Error: Failed to get a response'',
              timestamp = None\<rparr>] \<and>
        \<not> crashed (Pages_run [Submit t1, Settle 0 r t2] st)) \<and>
     \<not> isLoading (chat_run [Submit t1, Settle 0 r t2] st) \<and>
     \<not> isLoading (Pages_run [Submit t1, Settle 0 r t2] st) \<and>
     chat_reply (Response True (Parsed (JObj [(''message'', JStr t)]))) = Appends (JStr t) \<and>
     (\<not> is_nullish d \<and> renderable (member d ''message'') \<longrightarrow>
        chat_reply (Response True (Parsed d)) = Appends (member d ''message'')) \<and>
     chat_reply (Rejected e) = Caught \<and>
     chat_reply (Response False b) = Caught \<and>
     chat_reply (Response ok (Unparsable e)) = Caught"
proof -
  have part: "chat_reply r = Appends m \<longrightarrow>
        messages (chat_run [Submit t1, Settle 0 r t2] st) =
          messages st @
            [\<lparr>role = ''user'', content = JStr (input st), timestamp = Some t1\<rparr>,
             \<lparr>role = ''model'', content = m, timestamp = Some t2\<rparr>] \<and>
        \<not> crashed (chat_run [Submit t1, Settle 0 r t2] st)"
    "chat_reply r = Caught \<longrightarrow>
        messages (chat_run [Submit t1, Settle 0 r t2] st) =
          messages st @
            [\<lparr>role = ''user'', content = JStr (input st), timestamp = Some t1\<rparr>,
             \<lparr>role = ''system'',
              content = JStr ''Error: Failed to get a response. Please try again.'',
              timestamp = Some t2\<rparr>] \<and>
        \<not> crashed (chat_run [Submit t1, Settle 0 r t2] st)"
    "\<not> isLoading (chat_run [Submit t1, Settle 0 r t2] st)"
    using assms
    by (simp_all add: chat_run_def handleSendMessage_def sendSettled_def Let_def
                 split: reply.split)
  have pages: "chat_reply r = Appends m \<longrightarrow>
        messages (Pages_run [Submit t1, Settle 0 r t2] st) =
          messages st @
            [\<lparr>role = ''user'', content = JStr (input st), timestamp = None\<rparr>,
             \<lparr>role = ''assistant'', content = m, timestamp = None\<rparr>] \<and>
        \<not> crashed (Pages_run [Submit t1, Settle 0 r t2] st)"
    "chat_reply r = Caught \<longrightarrow>
        messages (Pages_run [Submit t1, Settle 0 r t2] st) =
          messages st @
            [\<lparr>role = ''user'', content = JStr (input st), timestamp = None\<rparr>,
             \<lparr>role = ''system'', content = JStr ''Error: Failed to get a response'',
              timestamp = None\<rparr>] \<and>
        \<not> crashed (Pages_run [Submit t1, Settle 0 r t2] st)"
    "\<not> isLoading (Pages_run [Submit t1, Settle 0 r t2] st)"
    using assms
    by (simp_all add: Pages_run_def Pages_handleSendMessage_def Pages_sendSettled_def Let_def
                 split: reply.split)
  have replies: "chat_reply (Response True (Parsed (JObj [(''message'', JStr t)]))) = Appends (JStr t)"
    "\<not> is_nullish d \<and> renderable (member d ''message'') \<longrightarrow>
       chat_reply (Response True (Parsed d)) = Appends (member d ''message'')"
    "chat_reply (Rejected e) = Caught"
    "chat_reply (Response False b) = Caught"
    "chat_reply (Response ok (Unparsable e)) = Caught"
    by (simp_all add: chat_reply_not_ok)
  from part pages replies show ?thesis by blast
qed

theorem send_turn_two_entries_witness:
  "trim (input ((initial_state (JObj []))\<lparr>input := ''hello''\<rparr>)) \<noteq> [] \<and>
   messages (chat_run [Submit ''t1'', Settle 0 (Response False (Unparsable [])) ''t2'']
              ((initial_state (JObj []))\<lparr>input := ''hello''\<rparr>)) =
     [\<lparr>role = ''user'', content = JStr ''hello'', timestamp = Some ''t1''\<rparr>,
      \<lparr>role = ''system'', content = JStr ''Error: Failed to get a response. Please try again.'',
       timestamp = Some ''t2''\<rparr>] \<and>
   messages (Pages_run [Submit ''t1'',
                Settle 0 (Response True (Parsed (JObj [(''message'', JStr ''hi'')]))) ''t2'']
              ((initial_state (JObj []))\<lparr>input := ''hello''\<rparr>)) =
     [\<lparr>role = ''user'', content = JStr ''hello'', timestamp = None\<rparr>,
      \<lparr>role = ''assistant'', content = JStr ''hi'', timestamp = None\<rparr>] \<and>
   renderable (member (JObj [(''message'', JStr ''hi'')]) ''message'')"
proof -
  let ?st = "(initial_state (JObj []))\<lparr>input := ''hello''\<rparr>"
  have typed: "trim (input ?st) \<noteq> []"
    by (simp add: initial_state_def trim_def is_space_def)
  have idle: "\<not> isLoading ?st" and none: "outstanding ?st = []" and up: "\<not> crashed ?st"
    by (simp_all add: initial_state_def)
  have failed: "chat_reply (Response False (Unparsable [])) = Caught"
    and answered: "chat_reply (Response True (Parsed (JObj [(''message'', JStr ''hi'')]))) =
                     Appends (JStr ''hi'')"
    and drawn: "\<not> is_nullish (JObj [(''message'', JStr ''hi'')]) \<and>
                renderable (member (JObj [(''message'', JStr ''hi'')]) ''message'')"
    by simp_all
  from typed failed answered drawn
    send_turn_two_entries [OF typed idle none up,
      where r = "Response False (Unparsable [])" and ?t1.0 = "''t1''" and ?t2.0 = "''t2''"]
    send_turn_two_entries [OF typed idle none up,
      where r = "Response True (Parsed (JObj [(''message'', JStr ''hi'')]))" and m = "JStr ''hi''"
        and ?t1.0 = "''t1''" and ?t2.0 = "''t2''" and d = "JObj [(''message'', JStr ''hi'')]"]
  show ?thesis by (simp add: initial_state_def)
qed

text \<open>
  Claim C1 as stated fails on the page of part_000: a 2xx reply \<^verbatim>\<open>{"message": "hi"}\<close> is
  logged under the role \<^verbatim>\<open>model\<close>, not \<^verbatim>\<open>assistant\<close>; and a 2xx reply \<^verbatim>\<open>{}\<close>, which is not
  of the shape \<^verbatim>\<open>{"message": m}\<close>, is logged as a model message too, not as a system error.
\<close>

theorem send_turn_two_entries_counterexample:
  "last (messages (chat_run
      [Settle 0 (Response True (Parsed (JObj [(''message'', JStr ''A summary'')]))) ''t1'',
       Change ''hello'', Submit ''t2'',
       Settle 0 (Response True (Parsed (JObj [(''message'', JStr ''hi'')]))) ''t3'']
      (mount (JObj [(''analysis'', JObj [(''title'', JStr ''Example'')])]) ''t0''))) =
     \<lparr>role = ''model'', content = JStr ''hi'', timestamp = Some ''t3''\<rparr> \<and>
   ''model'' \<noteq> ''assistant'' \<and>
   last (messages (chat_run
      [Settle 0 (Response True (Parsed (JObj [(''message'', JStr ''A summary'')]))) ''t1'',
       Change ''hello'', Submit ''t2'',
       Settle 0 (Response True (Parsed (JObj []))) ''t3'']
      (mount (JObj [(''analysis'', JObj [(''title'', JStr ''Example'')])]) ''t0''))) =
     \<lparr>role = ''model'', content = JUndefined, timestamp = Some ''t3''\<rparr>"
  by (simp add: chat_run_def mount_def header_renders_def opt_member_def initEffect_def
        initial_state_def handleAutoAnalyze_def autoAnalyzeSettled_def handleSendMessage_def
        sendSettled_def Let_def trim_def is_space_def)

text \<open>
  Claim C3, as the code has it. Mounting the page with a route payload whose header the
  page can draw (the URL of the analysis is a string or is not given) puts exactly one
  system announcement in the log (its subject is the analysis title when that is a
  non-empty string) and sends one request whose only message is the fixed prompt, under the
  role \<^verbatim>\<open>user\<close>. The reply appends exactly one entry: under the role \<^verbatim>\<open>model\<close> when the
  backend answers 2xx with a JSON body other than null whose \<^verbatim>\<open>message\<close> React can draw, a
  system error message when the fetch fails, the status is not 2xx or the body is not JSON.
  Until the first submit the log of a page that has not crashed holds the announcement
  alone while the request waits and these two entries afterwards, and none of them has the
  role \<^verbatim>\<open>user\<close>: the prompt is never logged.
\<close>

theorem initialize_announces_then_summarises:
  assumes "truthy u" and "header_renders u"
  shows
    "messages (mount u t0) =
       [\<lparr>role = ''system'',
         content = JStr (''Analyzing website: '' @ js_to_string (welcome_subject u)),
         timestamp = Some t0\<rparr>] \<and>
     (opt_member (member u ''analysis'') ''title'' = JStr t \<and> t \<noteq> [] \<longrightarrow>
        js_to_string (welcome_subject u) = t) \<and>
     dispatched (mount u t0) =
       [\<lparr>endpoint = ''http://127.0.0.1:3000/api/chat'',
         req_messages =
           [\<lparr>role = ''user'', content = JStr ''Give me a summary of this website'',
             timestamp = None\<rparr>],
         req_url_data = u\<rparr>] \<and>
     (chat_reply r = Appends m \<longrightarrow>
        messages (chat_run [Settle 0 r t1] (mount u t0)) =
          messages (mount u t0) @ [\<lparr>role = ''model'', content = m, timestamp = Some t1\<rparr>] \<and>
        \<not> crashed (chat_run [Settle 0 r t1] (mount u t0))) \<and>
     (chat_reply r = Caught \<longrightarrow>
        messages (chat_run [Settle 0 r t1] (mount u t0)) =
          messages (mount u t0) @
            [\<lparr>role = ''system'',
              content = JStr
                ''Error: Failed to analyze website. Please try a different URL or try again later.'',
              timestamp = Some t1\<rparr>] \<and>
        \<not> crashed (chat_run [Settle 0 r t1] (mount u t0))) \<and>
     (\<not> is_nullish d \<and> renderable (member d ''message'') \<longrightarrow>
        chat_reply (Response True (Parsed d)) = Appends (member d ''message'')) \<and>
     (opt_member (opt_member w ''analysis'') ''url'' = JStr a \<longrightarrow> header_renders w) \<and>
     (is_nullish (opt_member (opt_member w ''analysis'') ''url'') \<longrightarrow> header_renders w) \<and>
     (list_all (\<lambda>ev. \<not> is_submit ev) evs \<and> \<not> crashed (chat_run evs (mount u t0)) \<longrightarrow>
        length (messages (chat_run evs (mount u t0))) =
          (if isLoading (chat_run evs (mount u t0)) then 1 else 2) \<and>
        list_all not_from_user (messages (chat_run evs (mount u t0))))"
proof -
  note m = mount_present [OF assms, of t0]
  have announced: "messages (mount u t0) =
       [\<lparr>role = ''system'',
         content = JStr (''Analyzing website: '' @ js_to_string (welcome_subject u)),
         timestamp = Some t0\<rparr>]"
    by (simp add: m)
  have titled: "opt_member (member u ''analysis'') ''title'' = JStr t \<and> t \<noteq> [] \<longrightarrow>
        js_to_string (welcome_subject u) = t"
    by (simp add: welcome_subject_title)
  have sent: "dispatched (mount u t0) =
       [\<lparr>endpoint = ''http://127.0.0.1:3000/api/chat'',
         req_messages =
           [\<lparr>role = ''user'', content = JStr ''Give me a summary of this website'',
             timestamp = None\<rparr>],
         req_url_data = u\<rparr>]"
    by (simp add: m summary_prompt_def)
  have replied: "chat_reply r = Appends m \<longrightarrow>
        messages (chat_run [Settle 0 r t1] (mount u t0)) =
          messages (mount u t0) @ [\<lparr>role = ''model'', content = m, timestamp = Some t1\<rparr>] \<and>
        \<not> crashed (chat_run [Settle 0 r t1] (mount u t0))"
    "chat_reply r = Caught \<longrightarrow>
        messages (chat_run [Settle 0 r t1] (mount u t0)) =
          messages (mount u t0) @
            [\<lparr>role = ''system'',
              content = JStr
                ''Error: Failed to analyze website. Please try a different URL or try again later.'',
              timestamp = Some t1\<rparr>] \<and>
        \<not> crashed (chat_run [Settle 0 r t1] (mount u t0))"
    by (simp_all add: m chat_run_def autoAnalyzeSettled_def Let_def)
  have drawn: "\<not> is_nullish d \<and> renderable (member d ''message'') \<longrightarrow>
        chat_reply (Response True (Parsed d)) = Appends (member d ''message'')"
    by simp
  have header: "opt_member (opt_member w ''analysis'') ''url'' = JStr a \<longrightarrow> header_renders w"
    "is_nullish (opt_member (opt_member w ''analysis'') ''url'') \<longrightarrow> header_renders w"
    using header_renders_string_url [of w] by blast+
  have quiet: "length (messages (chat_run evs (mount u t0))) =
          (if isLoading (chat_run evs (mount u t0)) then 1 else 2) \<and>
        list_all not_from_user (messages (chat_run evs (mount u t0)))"
    if q: "list_all (\<lambda>ev. \<not> is_submit ev) evs" and up: "\<not> crashed (chat_run evs (mount u t0))"
  proof -
    have "accounted (chat_run evs (mount u t0)) = accounted (mount u t0)"
      by (rule quiet_run_count [OF q single_flight_mount up])
    moreover have "accounted (mount u t0) = 2"
      by (simp add: m accounted_def)
    moreover have "single_flight (chat_run evs (mount u t0))"
      by (rule single_flight_run [OF single_flight_mount])
    ultimately have "length (messages (chat_run evs (mount u t0))) =
          (if isLoading (chat_run evs (mount u t0)) then 1 else 2)"
      by (simp add: single_flight_def accounted_def split: if_splits)
    moreover have "list_all not_from_user (messages (mount u t0))"
      by (simp add: m not_from_user_def)
    then have "list_all not_from_user (messages (chat_run evs (mount u t0)))"
      by (rule quiet_run_roles [OF q])
    ultimately show ?thesis by simp
  qed
  from announced titled sent replied drawn header quiet show ?thesis
    by blast
qed

theorem initialize_announces_then_summarises_witness:
  "truthy (JObj [(''analysis'', JObj [(''title'', JStr ''Example'')])]) \<and>
   header_renders (JObj [(''analysis'', JObj [(''title'', JStr ''Example'')])]) \<and>
   messages (mount (JObj [(''analysis'', JObj [(''title'', JStr ''Example'')])]) ''t0'') =
     [\<lparr>role = ''system'', content = JStr ''Analyzing website: Example'',
       timestamp = Some ''t0''\<rparr>] \<and>
   messages (chat_run [Settle 0 (Rejected []) ''t1'']
      (mount (JObj [(''analysis'', JObj [(''title'', JStr ''Example'')])]) ''t0'')) =
     [\<lparr>role = ''system'', content = JStr ''Analyzing website: Example'',
       timestamp = Some ''t0''\<rparr>,
      \<lparr>role = ''system'',
       content = JStr
         ''Error: Failed to analyze website. Please try a different URL or try again later.'',
       timestamp = Some ''t1''\<rparr>] \<and>
   length (messages (chat_run [Change ''h'', Settle 0 (Rejected []) ''t1'', Toggle, Change ''hi'']
             (mount (JObj [(''analysis'', JObj [(''title'', JStr ''Example'')])]) ''t0''))) = 2"
proof -
  let ?u = "JObj [(''analysis'', JObj [(''title'', JStr ''Example'')])]"
  let ?evs = "[Change ''h'', Settle 0 (Rejected []) ''t1'', Toggle, Change ''hi'']"
  have present: "truthy ?u" by simp
  have header: "header_renders ?u"
    by (simp add: header_renders_def opt_member_def)
  have title: "opt_member (member ?u ''analysis'') ''title'' = JStr ''Example'' \<and> ''Example'' \<noteq> []"
    by (simp add: opt_member_def)
  have failed: "chat_reply (Rejected []) = Caught" by simp
  have quiet: "list_all (\<lambda>ev. \<not> is_submit ev) ?evs" by simp
  have idle: "\<not> isLoading (chat_run ?evs (mount ?u ''t0'')) \<and> \<not> crashed (chat_run ?evs (mount ?u ''t0''))"
    by (simp add: chat_run_def mount_present [OF present header] autoAnalyzeSettled_def Let_def
          toggleSidebar_def sidebar_renders_def key_points_render_def opt_member_def js_or_def)
  from present header title failed quiet idle
    initialize_announces_then_summarises [OF present header,
      where ?t0.0 = "''t0''" and t = "''Example''" and r = "Rejected []" and ?t1.0 = "''t1''"
        and evs = ?evs]
  show ?thesis by simp
qed

text \<open>
  Claim C3 as stated fails: the entry of a successful automatic summary turn has the role
  \<^verbatim>\<open>model\<close>, not \<^verbatim>\<open>assistant\<close>.
\<close>

theorem initialize_announces_then_summarises_counterexample:
  "messages (chat_run
      [Settle 0 (Response True (Parsed (JObj [(''message'', JStr ''A summary'')]))) ''t1'']
      (mount (JObj [(''analysis'', JObj [(''title'', JStr ''Example'')])]) ''t0'')) =
     [\<lparr>role = ''system'', content = JStr ''Analyzing website: Example'',
       timestamp = Some ''t0''\<rparr>,
      \<lparr>role = ''model'', content = JStr ''A summary'', timestamp = Some ''t1''\<rparr>] \<and>
   ''model'' \<noteq> ''assistant''"
  by (simp add: chat_run_def mount_def header_renders_def initEffect_def initial_state_def
        handleAutoAnalyze_def autoAnalyzeSettled_def Let_def welcome_subject_def js_or_def
        opt_member_def)

text \<open>
  Claim C4, as the code has it. Every message in the log of a mounted page has the role
  \<^verbatim>\<open>user\<close>, \<^verbatim>\<open>model\<close> or \<^verbatim>\<open>system\<close>. The request of an accepted user turn carries the whole
  log as it stood, system entries included, followed by the new user message; the request
  of the automatic summary turn carries the fixed prompt alone, under the role \<^verbatim>\<open>user\<close>.
\<close>

theorem requests_carry_whole_log:
  "(\<forall>m \<in> set (messages (chat_run evs (mount u t0))).
      role m = ''user'' \<or> role m = ''model'' \<or> role m = ''system'') \<and>
   (trim (input st) \<noteq> [] \<and> \<not> isLoading st \<longrightarrow>
      dispatched (handleSendMessage now st) =
        dispatched st @
          [\<lparr>endpoint = ''http://127.0.0.1:3000/api/chat'',
            req_messages =
              messages st @ [\<lparr>role = ''user'', content = JStr (input st), timestamp = Some now\<rparr>],
            req_url_data = urlData st\<rparr>]) \<and>
   (\<not> isLoading st \<longrightarrow>
      dispatched (handleAutoAnalyze ud st) =
        dispatched st @
          [\<lparr>endpoint = ''http://127.0.0.1:3000/api/chat'',
            req_messages =
              [\<lparr>role = ''user'', content = JStr ''Give me a summary of this website'',
                timestamp = None\<rparr>],
            req_url_data = ud\<rparr>])"
proof -
  have "list_all known_role (messages (chat_run evs (mount u t0)))"
    by (rule known_role_run [OF known_role_mount])
  then have "\<forall>m \<in> set (messages (chat_run evs (mount u t0))).
      role m = ''user'' \<or> role m = ''model'' \<or> role m = ''system''"
    by (simp add: list_all_iff known_role_def)
  then show ?thesis
    by (simp add: handleSendMessage_def handleAutoAnalyze_def Let_def summary_prompt_def)
qed

theorem requests_carry_whole_log_witness:
  "dispatched (handleSendMessage ''t1''
      \<lparr>messages = [\<lparr>role = ''system'', content = JStr ''Analyzing website: Example'',
                     timestamp = Some ''t0''\<rparr>],
       input = ''hello'', isLoading = False, isExpanded = False, urlData = JObj [],
       navigated = [],
       dispatched = [], outstanding = [], crashed = False\<rparr>) =
     [\<lparr>endpoint = ''http://127.0.0.1:3000/api/chat'',
       req_messages =
         [\<lparr>role = ''system'', content = JStr ''Analyzing website: Example'',
            timestamp = Some ''t0''\<rparr>,
          \<lparr>role = ''user'', content = JStr ''hello'', timestamp = Some ''t1''\<rparr>],
       req_url_data = JObj []\<rparr>] \<and>
   map role (messages (chat_run [Settle 0 (Rejected []) ''t1''] (mount (JObj []) ''t0''))) =
     [''system'', ''system'']"
proof -
  let ?st = "\<lparr>messages = [\<lparr>role = ''system'', content = JStr ''Analyzing website: Example'',
                     timestamp = Some ''t0''\<rparr>],
       input = ''hello'', isLoading = False, isExpanded = False, urlData = JObj [],
       navigated = [],
       dispatched = [], outstanding = [], crashed = False\<rparr>"
  have typed: "trim (input ?st) \<noteq> [] \<and> \<not> isLoading ?st"
    by (simp add: trim_def is_space_def)
  have roles: "map role (messages (chat_run [Settle 0 (Rejected []) ''t1''] (mount (JObj []) ''t0''))) =
     [''system'', ''system'']"
    by (simp add: chat_run_def mount_def header_renders_def opt_member_def initEffect_def
          initial_state_def handleAutoAnalyze_def autoAnalyzeSettled_def Let_def)
  from typed roles
    requests_carry_whole_log [of "[Settle 0 (Rejected []) ''t1'']" "JObj []" "''t0''" ?st "''t1''"]
  show ?thesis by simp
qed

text \<open>
  Claim C4 as stated fails: the request of the first user turn carries the system
  announcement and the reply logged under the role \<^verbatim>\<open>model\<close>.
\<close>

theorem requests_carry_whole_log_counterexample:
  "req_messages (last (dispatched (chat_run
      [Settle 0 (Response True (Parsed (JObj [(''message'', JStr ''A summary'')]))) ''t1'',
       Change ''hello'', Submit ''t2'']
      (mount (JObj [(''analysis'', JObj [(''title'', JStr ''Example'')])]) ''t0'')))) =
     [\<lparr>role = ''system'', content = JStr ''Analyzing website: Example'',
       timestamp = Some ''t0''\<rparr>,
      \<lparr>role = ''model'', content = JStr ''A summary'', timestamp = Some ''t1''\<rparr>,
      \<lparr>role = ''user'', content = JStr ''hello'', timestamp = Some ''t2''\<rparr>]"
  by (simp add: chat_run_def mount_def header_renders_def initEffect_def initial_state_def
        handleAutoAnalyze_def autoAnalyzeSettled_def handleSendMessage_def Let_def trim_def
        is_space_def welcome_subject_def js_or_def opt_member_def)

section \<open>The URL input page: lemmas\<close>

lemma trim_blank: "trim s = [] \<longleftrightarrow> list_all is_space s"
proof
  assume "list_all is_space s"
  then have "dropWhile is_space s = []"
    by (simp add: list_all_iff)
  then show "trim s = []"
    by (simp add: trim_def del: dropWhile_eq_Nil_conv)
next
  assume "trim s = []"
  then have all: "\<forall>c \<in> set (dropWhile is_space s). is_space c"
    by (auto simp: trim_def dropWhile_eq_Nil_conv dest: set_dropWhileD)
  have "dropWhile is_space s = []"
  proof (rule ccontr)
    assume ne: "dropWhile is_space s \<noteq> []"
    then have "\<not> is_space (hd (dropWhile is_space s))"
      by (rule hd_dropWhile)
    moreover from ne have "hd (dropWhile is_space s) \<in> set (dropWhile is_space s)"
      by simp
    ultimately show False using all by blast
  qed
  then show "list_all is_space s"
    by (simp add: list_all_iff dropWhile_eq_Nil_conv)
qed

lemma updatedUrls_front: "updatedUrls v xs = JStr v # take 4 (removeAll (JStr v) xs)"
proof -
  have "filter (\<lambda>item. item \<noteq> JStr v) xs = removeAll (JStr v) xs"
    by (induction xs) auto
  moreover have "take 5 (y # ys) = y # take 4 ys" for y :: jsval and ys
    by (simp add: take_Cons')
  ultimately show ?thesis by (simp add: updatedUrls_def)
qed

lemma updatedUrls_cap: "length (updatedUrls v xs) \<le> 5"
  by (simp add: updatedUrls_def)

lemma updatedUrls_once: "count_list (updatedUrls v xs) (JStr v) = 1"
proof -
  have "JStr v \<notin> set (take 4 (removeAll (JStr v) xs))"
    using in_set_takeD by fastforce
  then show ?thesis by (simp add: updatedUrls_front count_list_0_iff)
qed

lemma updatedUrls_distinct:
  assumes "distinct xs"
  shows "distinct (updatedUrls v xs)"
proof -
  have "JStr v \<notin> set (take 4 (removeAll (JStr v) xs))"
    using in_set_takeD by fastforce
  moreover have "distinct (take 4 (removeAll (JStr v) xs))"
    using assms by (simp add: distinct_removeAll)
  ultimately show ?thesis by (simp add: updatedUrls_front)
qed

lemma updatedUrls_sequence:
  assumes "distinct [a, b, c, d, e, f]"
  shows "foldl (\<lambda>cache v. updatedUrls v cache) [] [a, b, a, c, d, e, f] =
         map JStr [f, e, d, c, a]"
  using assms by (simp add: updatedUrls_def)

lemma saveToRecent_left:
  "recentUrls (left_state (saveToRecent pf (JArr xs) v st)) = JArr (updatedUrls v xs)"
  by (simp add: saveToRecent_def split: option.split)

lemma saveToRecent_written:
  assumes "setItem_error pf (localStorage st) ''recentUrls''
             (JSON_stringify pf (JArr (updatedUrls v xs))) = None"
  shows "saveToRecent pf (JArr xs) v st =
     Saved (st\<lparr>recentUrls := JArr (updatedUrls v xs),
               localStorage := (localStorage st)
                 (''recentUrls'' \<mapsto> JSON_stringify pf (JArr (updatedUrls v xs)))\<rparr>)"
  using assms by (simp add: saveToRecent_def)

lemma saveToRecent_unwritten:
  assumes "setItem_error pf (localStorage st) ''recentUrls''
             (JSON_stringify pf (JArr (updatedUrls v xs))) = Some e"
  shows "saveToRecent pf (JArr xs) v st = Threw e (st\<lparr>recentUrls := JArr (updatedUrls v xs)\<rparr>)"
  using assms by (simp add: saveToRecent_def)

lemma lower_h: "ascii_lower c = CHR ''h'' \<longleftrightarrow> c \<in> set ''hH''"
  by (auto simp: ascii_lower_def split: if_splits)

lemma lower_t: "ascii_lower c = CHR ''t'' \<longleftrightarrow> c \<in> set ''tT''"
  by (auto simp: ascii_lower_def split: if_splits)

lemma lower_p: "ascii_lower c = CHR ''p'' \<longleftrightarrow> c \<in> set ''pP''"
  by (auto simp: ascii_lower_def split: if_splits)

lemma lower_s: "ascii_lower c = CHR ''s'' \<longleftrightarrow> c \<in> set ''sS''"
  by (auto simp: ascii_lower_def split: if_splits)

lemma lower_colon: "ascii_lower c = CHR '':'' \<longleftrightarrow> c = CHR '':''"
  by (auto simp: ascii_lower_def split: if_splits)

lemma lower_slash: "ascii_lower c = CHR ''/'' \<longleftrightarrow> c = CHR ''/''"
  by (auto simp: ascii_lower_def split: if_splits)

lemma lower_slashes: "map ascii_lower xs = ''//'' \<longleftrightarrow> xs = ''//''"
  by (auto simp: map_eq_Cons_conv lower_slash)

lemma lower_colon_slashes: "map ascii_lower xs = ''://'' \<longleftrightarrow> xs = ''://''"
  by (auto simp: map_eq_Cons_conv lower_slash lower_colon)

lemma has_http_scheme_in_words: "has_http_scheme s \<longleftrightarrow> begins_with_http s"
  unfolding has_http_scheme_def begins_with_http_def
  by (simp add: lower_h lower_t lower_p lower_s lower_colon lower_slash lower_slashes
        lower_colon_slashes split: list.split del: set_simps)
     blast

lemma has_http_scheme_http: "has_http_scheme (''http://'' @ r)"
  by (simp add: has_http_scheme_def)

lemma has_http_scheme_https: "has_http_scheme (''https://'' @ r)"
  by (simp add: has_http_scheme_def)

lemma submit_try_before_save:
  "submit_try pf p (Rejected e) st = Inl (e, st)"
  "submit_try pf p (Response ok (Unparsable e)) st = Inl (e, st)"
  "\<exists>msg. submit_try pf p (Response False b) st = Inl (msg, st)"
  by (cases b; simp)+

lemma caught_before_save_keeps_cache:
  assumes "submit_try pf p r st = Inl (msg, st)"
  shows "recentUrls (submitSettled pf p r st) = recentUrls st"
    and "localStorage (submitSettled pf p r st) = localStorage st"
    and "navigated_to (submitSettled pf p r st) = navigated_to st"
    and "error (submitSettled pf p r st) \<noteq> []"
  using assms by (simp_all add: submitSettled_def)

lemma blank_submit_posts_nothing:
  "list_all is_space (url st) \<Longrightarrow> handleSubmit st = st\<lparr>error := ''Please enter a URL''\<rparr>"
  by (simp add: handleSubmit_def trim_blank)

lemma js_slice_0_5_length: "js_slice_0_5 v = Some r \<Longrightarrow> js_length r \<le> 5"
  by (cases v) auto

lemma loaded_length: "js_length (recentUrls (loadRecentEffect pf (initial_url_state store))) \<le> 5"
  by (auto simp: loadRecentEffect_def initial_url_state_def dest: js_slice_0_5_length
           split: option.split)

section \<open>The URL input page: claims\<close>

text \<open>
  Claim C5. Saving a URL to the recent list puts it at the front, drops every earlier
  occurrence of the same string, keeps the others in their order and cuts the list to five
  entries; the new list is what is written to the store, and it is in the state also when
  the write throws. Starting from the empty list, saving a, b, a, c, d, e, f (six different
  strings) in that order gives [f, e, d, c, a].
\<close>

theorem recent_front_dedupe_cap:
  "recentUrls (left_state (saveToRecent pf (JArr xs) v st)) = JArr (updatedUrls v xs) \<and>
   (setItem_error pf (localStorage st) ''recentUrls''
      (JSON_stringify pf (JArr (updatedUrls v xs))) = None \<longrightarrow>
    saveToRecent pf (JArr xs) v st =
      Saved (st\<lparr>recentUrls := JArr (updatedUrls v xs),
                localStorage := (localStorage st)
                  (''recentUrls'' \<mapsto> JSON_stringify pf (JArr (updatedUrls v xs)))\<rparr>)) \<and>
   (setItem_error pf (localStorage st) ''recentUrls''
      (JSON_stringify pf (JArr (updatedUrls v xs))) = Some err \<longrightarrow>
    saveToRecent pf (JArr xs) v st = Threw err (st\<lparr>recentUrls := JArr (updatedUrls v xs)\<rparr>)) \<and>
   updatedUrls v xs = JStr v # take 4 (removeAll (JStr v) xs) \<and>
   length (updatedUrls v xs) \<le> 5 \<and>
   count_list (updatedUrls v xs) (JStr v) = 1 \<and>
   (distinct xs \<longrightarrow> distinct (updatedUrls v xs)) \<and>
   (distinct [a, b, c, d, e, f] \<longrightarrow>
      foldl (\<lambda>cache w. updatedUrls w cache) [] [a, b, a, c, d, e, f] = map JStr [f, e, d, c, a])"
  using saveToRecent_left [of pf xs v st]
    saveToRecent_written [of pf st v xs] saveToRecent_unwritten [of pf st v xs err]
    updatedUrls_front [of v xs] updatedUrls_cap [of v xs]
    updatedUrls_once [of v xs] updatedUrls_distinct [of xs v]
    updatedUrls_sequence [of a b c d e f]
  by blast

theorem recent_front_dedupe_cap_witness:
  "distinct [''a'', ''b'', ''c'', ''d'', ''e'', ''f''] \<and>
   foldl (\<lambda>cache w. updatedUrls w cache) [] [''a'', ''b'', ''a'', ''c'', ''d'', ''e'', ''f''] =
     [JStr ''f'', JStr ''e'', JStr ''d'', JStr ''c'', JStr ''a''] \<and>
   distinct [JStr ''x'', JStr ''y''] \<and>
   updatedUrls ''y'' [JStr ''x'', JStr ''y''] = [JStr ''y'', JStr ''x''] \<and>
   saveToRecent
     \<lparr>JSON_parse = (\<lambda>s. None), JSON_stringify = (\<lambda>v. []), null_read_message = [],
      not_function_message = [], setItem_error = (\<lambda>store k v. None)\<rparr>
     (JArr [JStr ''x'', JStr ''y'']) ''y'' (initial_url_state Map.empty) =
     Saved ((initial_url_state Map.empty)
       \<lparr>recentUrls := JArr [JStr ''y'', JStr ''x''],
        localStorage := [''recentUrls'' \<mapsto> []]\<rparr>) \<and>
   saveToRecent
     \<lparr>JSON_parse = (\<lambda>s. None), JSON_stringify = (\<lambda>v. []), null_read_message = [],
      not_function_message = [], setItem_error = (\<lambda>store k v. Some ''QuotaExceededError'')\<rparr>
     (JArr [JStr ''x'', JStr ''y'']) ''y'' (initial_url_state Map.empty) =
     Threw ''QuotaExceededError''
       ((initial_url_state Map.empty)\<lparr>recentUrls := JArr [JStr ''y'', JStr ''x'']\<rparr>)"
proof -
  let ?ok = "\<lparr>JSON_parse = (\<lambda>s. None), JSON_stringify = (\<lambda>v. []), null_read_message = [],
      not_function_message = [], setItem_error = (\<lambda>store k v. None)\<rparr>"
  let ?full = "\<lparr>JSON_parse = (\<lambda>s. None), JSON_stringify = (\<lambda>v. []), null_read_message = [],
      not_function_message = [], setItem_error = (\<lambda>store k v. Some ''QuotaExceededError'')\<rparr>"
  have letters: "distinct [''a'', ''b'', ''c'', ''d'', ''e'', ''f'']" by simp
  have cache: "distinct [JStr ''x'', JStr ''y'']" by simp
  have front: "updatedUrls ''y'' [JStr ''x'', JStr ''y''] = [JStr ''y'', JStr ''x'']"
    by (simp add: updatedUrls_def)
  from letters cache front
    recent_front_dedupe_cap [where pf = ?ok and xs = "[JStr ''x'', JStr ''y'']" and v = "''y''"
       and st = "initial_url_state Map.empty"
       and a = "''a''" and b = "''b''" and c = "''c''" and d = "''d''" and e = "''e''"
       and f = "''f''"]
    recent_front_dedupe_cap [where pf = ?full and xs = "[JStr ''x'', JStr ''y'']" and v = "''y''"
       and st = "initial_url_state Map.empty" and err = "''QuotaExceededError''"]
  show ?thesis by (simp add: initial_url_state_def)
qed

text \<open>
  Claim C6, as the code has it. For a non-blank input the page posts the trimmed input
  unchanged when it begins with \<^verbatim>\<open>http://\<close> or \<^verbatim>\<open>https://\<close> (letters in either case), and
  with \<^verbatim>\<open>https://\<close> put in front otherwise; \<^verbatim>\<open>example.com\<close> is posted as
  \<^verbatim>\<open>https://example.com\<close>. Nothing else is checked: every non-blank input is posted and the
  error field is cleared.
\<close>

theorem submit_prepends_https:
  assumes "trim (url st) \<noteq> []"
  shows
    "posted (handleSubmit st) =
       posted st @
         [if begins_with_http (trim (url st)) then trim (url st)
          else ''https://'' @ trim (url st)] \<and>
     error (handleSubmit st) = [] \<and>
     begins_with_http (''http://'' @ r) \<and>
     begins_with_http (''https://'' @ r) \<and>
     begins_with_http ''HTTPS://EXAMPLE.COM'' \<and>
     \<not> begins_with_http ''example.com'' \<and>
     (trim (url st) = ''example.com'' \<longrightarrow>
        posted (handleSubmit st) = posted st @ [''https://example.com''])"
proof -
  have "\<not> has_http_scheme ''example.com''" and "has_http_scheme ''HTTPS://EXAMPLE.COM''"
    by (simp_all add: has_http_scheme_def)
  with assms has_http_scheme_http [of r] has_http_scheme_https [of r] show ?thesis
    by (simp add: handleSubmit_def normalize_url_def has_http_scheme_in_words [symmetric])
qed

theorem submit_prepends_https_witness:
  "trim (url ((initial_url_state Map.empty)\<lparr>url := '' example.com ''\<rparr>)) = ''example.com'' \<and>
   posted (handleSubmit ((initial_url_state Map.empty)\<lparr>url := '' example.com ''\<rparr>)) =
     [''https://example.com'']"
proof -
  let ?st = "(initial_url_state Map.empty)\<lparr>url := '' example.com ''\<rparr>"
  have typed: "trim (url ?st) = ''example.com''"
    by (simp add: initial_url_state_def trim_def is_space_def)
  then have nonblank: "trim (url ?st) \<noteq> []" by simp
  from typed submit_prepends_https [OF nonblank] show ?thesis
    by (simp add: initial_url_state_def)
qed

text \<open>
  Claim C6 as stated fails: an input that already has a scheme other than http or https is
  not posted unchanged.
\<close>

theorem submit_prepends_https_counterexample:
  "posted (handleSubmit ((initial_url_state Map.empty)\<lparr>url := ''ftp://example.com''\<rparr>)) =
     [''https://ftp://example.com'']"
  by (simp add: handleSubmit_def normalize_url_def has_http_scheme_def initial_url_state_def
        trim_def is_space_def)

text \<open>
  Claim C7 at a failing input. The backend answers the submit of \<^verbatim>\<open>example.com\<close> with 2xx and
  a JSON body, and the write to the store throws (the quota is used up). The submit fails:
  the error text is set and the page does not go to the chat. But \<^verbatim>\<open>setRecentUrls\<close> ran
  before the write, so the recent list now holds the URL.
\<close>

theorem failed_write_changes_cache:
  "recentUrls (initial_url_state Map.empty) = JArr [] \<and>
   recentUrls
     (submitSettled
        \<lparr>JSON_parse = (\<lambda>s. None), JSON_stringify = (\<lambda>v. []), null_read_message = [],
         not_function_message = [],
         setItem_error = (\<lambda>store k v. Some ''QuotaExceededError'')\<rparr>
        (hd (waiting (handleSubmit ((initial_url_state Map.empty)\<lparr>url := ''example.com''\<rparr>))))
        (Response True (Parsed (JObj [])))
        (handleSubmit ((initial_url_state Map.empty)\<lparr>url := ''example.com''\<rparr>))) =
     JArr [JStr ''https://example.com''] \<and>
   error
     (submitSettled
        \<lparr>JSON_parse = (\<lambda>s. None), JSON_stringify = (\<lambda>v. []), null_read_message = [],
         not_function_message = [],
         setItem_error = (\<lambda>store k v. Some ''QuotaExceededError'')\<rparr>
        (hd (waiting (handleSubmit ((initial_url_state Map.empty)\<lparr>url := ''example.com''\<rparr>))))
        (Response True (Parsed (JObj [])))
        (handleSubmit ((initial_url_state Map.empty)\<lparr>url := ''example.com''\<rparr>))) =
     ''QuotaExceededError'' \<and>
   navigated_to
     (submitSettled
        \<lparr>JSON_parse = (\<lambda>s. None), JSON_stringify = (\<lambda>v. []), null_read_message = [],
         not_function_message = [],
         setItem_error = (\<lambda>store k v. Some ''QuotaExceededError'')\<rparr>
        (hd (waiting (handleSubmit ((initial_url_state Map.empty)\<lparr>url := ''example.com''\<rparr>))))
        (Response True (Parsed (JObj [])))
        (handleSubmit ((initial_url_state Map.empty)\<lparr>url := ''example.com''\<rparr>))) = []"
  by (simp add: submitSettled_def saveToRecent_def updatedUrls_def handleSubmit_def
        initial_url_state_def trim_def is_space_def normalize_url_def has_http_scheme_def)

text \<open>
  Claim C10. When the stored \<^verbatim>\<open>recentUrls\<close> entry cannot be parsed as JSON, the loading effect
  catches the error and leaves the state as it was, so after mounting the recent list is
  still empty. When the entry parses to an array, the list is its first five elements. In
  every case the loaded value has at most five entries.
\<close>

theorem load_recent_tolerates_bad_json:
  "(localStorage st ''recentUrls'' = Some s \<and> JSON_parse pf s = None \<longrightarrow>
      loadRecentEffect pf st = st) \<and>
   (store ''recentUrls'' = Some s \<and> JSON_parse pf s = None \<longrightarrow>
      recentUrls (loadRecentEffect pf (initial_url_state store)) = JArr []) \<and>
   (localStorage st ''recentUrls'' = Some s \<and> s \<noteq> [] \<and> JSON_parse pf s = Some (JArr xs) \<longrightarrow>
      recentUrls (loadRecentEffect pf st) = JArr (take 5 xs) \<and> length (take 5 xs) \<le> 5) \<and>
   js_length (recentUrls (loadRecentEffect pf (initial_url_state store))) \<le> 5"
  by (simp add: loaded_length) (simp add: loadRecentEffect_def initial_url_state_def)

theorem load_recent_tolerates_bad_json_witness:
  "recentUrls (loadRecentEffect
      \<lparr>JSON_parse = (\<lambda>s. if s = ''[1,2,3,4,5,6]''
                           then Some (JArr [JNum ''1'', JNum ''2'', JNum ''3'', JNum ''4'',
                                            JNum ''5'', JNum ''6''])
                           else None),
       JSON_stringify = (\<lambda>v. []), null_read_message = [], not_function_message = [],
       setItem_error = (\<lambda>store k v. None)\<rparr>
      (initial_url_state [''recentUrls'' \<mapsto> ''{oops''])) = JArr [] \<and>
   recentUrls (loadRecentEffect
      \<lparr>JSON_parse = (\<lambda>s. if s = ''[1,2,3,4,5,6]''
                           then Some (JArr [JNum ''1'', JNum ''2'', JNum ''3'', JNum ''4'',
                                            JNum ''5'', JNum ''6''])
                           else None),
       JSON_stringify = (\<lambda>v. []), null_read_message = [], not_function_message = [],
       setItem_error = (\<lambda>store k v. None)\<rparr>
      (initial_url_state [''recentUrls'' \<mapsto> ''[1,2,3,4,5,6]''])) =
     JArr [JNum ''1'', JNum ''2'', JNum ''3'', JNum ''4'', JNum ''5'']"
proof -
  let ?pf = "\<lparr>JSON_parse = (\<lambda>s. if s = ''[1,2,3,4,5,6]''
                           then Some (JArr [JNum ''1'', JNum ''2'', JNum ''3'', JNum ''4'',
                                            JNum ''5'', JNum ''6''])
                           else None),
       JSON_stringify = (\<lambda>v. []), null_read_message = [], not_function_message = [],
       setItem_error = (\<lambda>store k v. None)\<rparr>"
  let ?bad = "[''recentUrls'' \<mapsto> ''{oops'']"
  let ?good = "[''recentUrls'' \<mapsto> ''[1,2,3,4,5,6]'']"
  have bad: "?bad ''recentUrls'' = Some ''{oops'' \<and> JSON_parse ?pf ''{oops'' = None"
    by simp
  have good: "localStorage (initial_url_state ?good) ''recentUrls'' = Some ''[1,2,3,4,5,6]'' \<and>
              ''[1,2,3,4,5,6]'' \<noteq> [] \<and>
              JSON_parse ?pf ''[1,2,3,4,5,6]'' =
                Some (JArr [JNum ''1'', JNum ''2'', JNum ''3'', JNum ''4'', JNum ''5'', JNum ''6''])"
    by (simp add: initial_url_state_def)
  from bad good
    load_recent_tolerates_bad_json [of _ "''{oops''" ?pf ?bad]
    load_recent_tolerates_bad_json [of "initial_url_state ?good" "''[1,2,3,4,5,6]''" ?pf _
      "[JNum ''1'', JNum ''2'', JNum ''3'', JNum ''4'', JNum ''5'', JNum ''6'']"]
  show ?thesis by simp
qed

end
